theory Spec2Isabelle
  imports Complex_Main
begin

section \<open>Python values shared by the metrics engine and the dispatch loop\<close>

text \<open>
  Numbers are Python's unbounded integers and the quotients the code forms from them
  (\<^verbatim>\<open>elapsed /= 1000\<close>, \<^verbatim>\<open>total / duration\<close>); they are modelled as exact rationals.
  A dictionary from field names to numbers is a map; \<^verbatim>\<open>d.get(field, 0)\<close> is \<open>get0\<close>.
\<close>

type_synonym num = rat
type_synonym field = string
type_synonym fields = "field \<rightharpoonup> num"

datatype exn =
    StopIteration
  | KeyError
  | IndexError
  | ValueError
  | ZeroDivisionError
  | ProcessLookupError
  | UnboundLocalError
  | OSError string

definition get0 :: "fields \<Rightarrow> field \<Rightarrow> num" where
  "get0 d f = (case d f of None \<Rightarrow> 0 | Some v \<Rightarrow> v)"

section \<open>The windowed metrics engine\<close>

text \<open>
  Modelled from the spec: the class \<^verbatim>\<open>Metrics\<close> of \<^verbatim>\<open>terminal.py\<close> is not among the
  sources; only its tests (\<^verbatim>\<open>test/test_terminal.py\<close>) and its caller (\<^verbatim>\<open>dispatch\<close>) are.
  The record has the five attributes the data model lists; a history entry is the pair
  (snapshot copy, elapsed).
\<close>

record metrics =
  window :: num
  duration :: num
  history :: "(fields \<times> num) list"
  snapshot :: fields
  current :: fields

text \<open>
  Modelled from the spec: the constructor \<^verbatim>\<open>Metrics(window=8)\<close>, which is not among the
  sources; the tests expect empty history, current and snapshot and a zero duration.
\<close>

definition Metrics :: "num \<Rightarrow> metrics" where
  "Metrics w = \<lparr>window = w, duration = 0, history = [], snapshot = Map.empty, current = Map.empty\<rparr>"

text \<open>
  Modelled from the spec: \<^verbatim>\<open>clear()\<close>, which is not among the sources, resets duration,
  history, snapshot and current to empty/zero, preserving window.
\<close>

definition clear :: "metrics \<Rightarrow> metrics" where
  "clear m = m\<lparr>duration := 0, history := [], snapshot := Map.empty, current := Map.empty\<rparr>"

text \<open>
  Modelled from the spec: \<^verbatim>\<open>update(field, value, count=1)\<close>, which is not among the
  sources, adds value to the pending delta of the field. The spec gives the occurrence
  count no observable operation, so the argument is accepted and not stored.
\<close>

definition update :: "metrics \<Rightarrow> field \<Rightarrow> num \<Rightarrow> num \<Rightarrow> metrics" where
  "update m f v c = m\<lparr>current := (current m)(f \<mapsto> get0 (current m) f + v)\<rparr>"

text \<open>
  Modelled from the spec: \<^verbatim>\<open>changes()\<close>, which is not among the sources, is the set of
  names with nonzero pending deltas since the last commit.
\<close>

definition changes :: "metrics \<Rightarrow> field set" where
  "changes m = {f \<in> dom (current m). get0 (current m) f \<noteq> 0}"

text \<open>
  Modelled from the spec: the folding step of \<^verbatim>\<open>commit\<close>, which is not among the
  sources: \<^verbatim>\<open>snapshot[field] += current[field]\<close> for every field with a pending delta.
\<close>

definition fold_pending :: "fields \<Rightarrow> fields \<Rightarrow> fields" where
  "fold_pending snap cur =
     (\<lambda>f. case cur f of None \<Rightarrow> snap f | Some v \<Rightarrow> Some (get0 snap f + v))"

text \<open>
  Modelled from the spec: \<^verbatim>\<open>commit(elapsed)\<close>, which is not among the sources, folds
  every pending delta into the cumulative snapshot, appends the history entry
  (snapshot copy, elapsed), adds elapsed to duration and clears current.
\<close>

definition commit :: "metrics \<Rightarrow> num \<Rightarrow> metrics" where
  "commit m elapsed =
     (let snap = fold_pending (snapshot m) (current m)
      in m\<lparr>snapshot := snap,
           history := history m @ [(snap, elapsed)],
           duration := duration m + elapsed,
           current := Map.empty\<rparr>)"

text \<open>
  Modelled from the spec: the end-of-interval marker of a history entry, which
  \<^verbatim>\<open>trim\<close> compares with the cutoff and which is not among the sources. The newest entry's
  interval ends at \<open>duration\<close>; each older entry's interval ends where the next one
  starts, that is the elapsed time of the newer entry earlier. \<open>marked_back\<close> walks the
  history from the newest entry backwards.
\<close>

fun marked_back :: "num \<Rightarrow> (fields \<times> num) list \<Rightarrow> ((fields \<times> num) \<times> num) list" where
  "marked_back d [] = []"
| "marked_back d (e # es) = (e, d) # marked_back (d - snd e) es"

text \<open>
  Modelled from the spec: the history entries of an entity, oldest first, each with its
  end-of-interval marker.
\<close>

definition end_markers :: "metrics \<Rightarrow> ((fields \<times> num) \<times> num) list" where
  "end_markers m = rev (marked_back (duration m) (rev (history m)))"

text \<open>
  Modelled from the spec: \<^verbatim>\<open>trim(window)\<close>, which is not among the sources, drops the
  history entries whose end marker
  is strictly before the cutoff \<open>duration - window\<close> and keeps the others, the one on
  the edge included; snapshot, duration and current are not touched.
\<close>

definition trim :: "metrics \<Rightarrow> num \<Rightarrow> metrics" where
  "trim m w =
     m\<lparr>history := map fst (filter (\<lambda>(e, t). duration m - w \<le> t) (end_markers m))\<rparr>"

text \<open>
  Modelled from the spec: \<^verbatim>\<open>total(field)\<close>, which is not among the sources, is
  \<^verbatim>\<open>snapshot.get(field, 0) + current.get(field, 0)\<close>.
\<close>

definition metrics_total :: "metrics \<Rightarrow> field \<Rightarrow> num" where
  "metrics_total m f = get0 (snapshot m) f + get0 (current m) f"

text \<open>
  Modelled from the spec: \<^verbatim>\<open>recent(field)\<close>, which is not among the sources, is
  \<^verbatim>\<open>snapshot.get(field, 0)\<close>.
\<close>

definition recent :: "metrics \<Rightarrow> field \<Rightarrow> num" where
  "recent m f = get0 (snapshot m) f"

text \<open>
  Modelled from the spec: \<^verbatim>\<open>rate(field)\<close>, which is not among the sources, is
  \<^verbatim>\<open>total(field) / duration\<close>; the division raises ZeroDivisionError when the duration
  is zero, and nothing catches it.
\<close>

definition rate :: "metrics \<Rightarrow> field \<Rightarrow> exn + num" where
  "rate m f = (if duration m = 0 then Inl ZeroDivisionError else Inr (metrics_total m f / duration m))"

text \<open>
  Modelled from the spec: \<^verbatim>\<open>delta(field_names)\<close> of a monitor or of the summary, which
  is not among the sources, is the mapping of exactly the given fields to their \<open>recent\<close>
  value.
\<close>

definition delta :: "metrics \<Rightarrow> field set \<Rightarrow> fields" where
  "delta m fs = (\<lambda>f. if f \<in> fs then Some (recent m f) else None)"

subsection \<open>Sequences of calls on one entity\<close>

datatype call = Update field num num | Commit num

fun apply_call :: "metrics \<Rightarrow> call \<Rightarrow> metrics" where
  "apply_call m (Update f v c) = update m f v c"
| "apply_call m (Commit elapsed) = commit m elapsed"

fun run_calls :: "metrics \<Rightarrow> call list \<Rightarrow> metrics" where
  "run_calls m [] = m"
| "run_calls m (c # cs) = run_calls (apply_call m c) cs"

text \<open>
  The sum of the pending deltas of a field, in the words of the spec: the values of the
  updates of that field made since the last commit of the sequence, on top of what was
  pending before it.
\<close>

fun pending_from :: "field \<Rightarrow> num \<Rightarrow> call list \<Rightarrow> num" where
  "pending_from f acc [] = acc"
| "pending_from f acc (Update g v c # cs) = pending_from f (if g = f then acc + v else acc) cs"
| "pending_from f acc (Commit elapsed # cs) = pending_from f 0 cs"

definition pending :: "field \<Rightarrow> call list \<Rightarrow> num" where
  "pending f cs = pending_from f 0 cs"

section \<open>The dispatch loop: data\<close>

text \<open>
  Lanes are the indices of \<^verbatim>\<open>monitors\<close>; work items, channel identifiers and channel
  qualifiers are opaque texts. A clock reading counts milliseconds, so that
  \<^verbatim>\<open>next_time.decrease(last).select('millisecond')\<close> is the difference of two readings.
\<close>

type_synonym lid = nat
type_synonym pid = nat
type_synonym fd = nat
type_synonym ref = nat
type_synonym ident = string
type_synonym chan = string
type_synonym clock = int

text \<open>
  The payload \<^verbatim>\<open>msg.msg_parameters['data']\<close> of a frame: \<open>Report p t fs us cs\<close> is an
  instance of \<^verbatim>\<open>Report\<close> whose \<^verbatim>\<open>r_parameters\<close> hold \<^verbatim>\<open>time\<close>, \<^verbatim>\<open>fields\<close>,
  \<^verbatim>\<open>units\<close> and \<^verbatim>\<open>counts\<close>, and \<open>p\<close> tells whether
  \<^verbatim>\<open>data.event.protocol == metrics_protocol\<close>; \<open>Other\<close> is any other value.
\<close>

datatype data = Report bool num "field list" "num list" "num list" | Other

record msg =
  msg_symbol :: string
  msg_data :: data

text \<open>
  A launch descriptor \<^verbatim>\<open>ki\<close> is what its \<^verbatim>\<open>spawn\<close> does: return a process identifier or
  raise. A process spec is the tuple
  \<^verbatim>\<open>(category, dimensions, xqual, xcontext, ki)\<close> that a plan yields.
\<close>

datatype ki = Spawns pid | Fails exn

fun spawn :: "ki \<Rightarrow> exn + pid" where
  "spawn (Spawns p) = Inr p"
| "spawn (Fails e) = Inl e"

type_synonym procspec = "string \<times> string list \<times> string \<times> string \<times> ki"

text \<open>
  The per-lane \<^verbatim>\<open>status\<close> dictionary: each key is absent (\<open>None\<close>) or holds a value.
  The value under \<^verbatim>\<open>'channel'\<close> is Python's \<^verbatim>\<open>None\<close> or a qualifier, the one under
  \<^verbatim>\<open>'process-queue'\<close> the address of an iterator, the one under \<^verbatim>\<open>'transactions'\<close>
  a \<^verbatim>\<open>defaultdict(list)\<close> from channel to the frames of its open transaction.
\<close>

record status =
  st_channel :: "string option option"
  st_source :: "ident option"
  st_process_queue :: "nat option"
  st_transactions :: "(chan \<rightharpoonup> msg list) option"
  st_pid :: "pid option"

definition cleared :: status where
  "cleared = \<lparr>st_channel = None, st_source = None, st_process_queue = None,
     st_transactions = None, st_pid = None\<rparr>"

text \<open>
  Every call that acts on a collaborator (the frame multiplexer, the queue, a monitor or
  the summary, the control layer, a Metrics entity, the operating system, a trap) is
  recorded, in the order the loop makes it. \<open>Lane i\<close> is \<^verbatim>\<open>monitors[i]\<close>.
\<close>

datatype target = Lane lid | Summary

datatype label = Star | QueueStatus | Process string "string list"

datatype event =
    Enter
  | Exit
  | Connect lid fd
  | Take nat
  | Finish ident
  | Title target label
  | Install target
  | Erase target
  | Frame target
  | CtlUpdate target fields
  | Flush
  | MClear target
  | MUpdate target field num num
  | MCommit target num
  | MTrim target num
  | Pipe fd fd
  | Spawn ki fd
  | Close fd
  | Killpg pid
  | Reap pid
  | Eop lid "string option" pid int
  | Eox lid msg msg "msg list" "string option"

text \<open>
  The variables of \<^verbatim>\<open>dispatch\<close> and the objects they refer to. \<open>statusd\<close> keeps the
  insertion order of the dictionary and maps a lane to the address of its status
  dictionary in \<open>heap\<close>; \<open>status\<close> is the local variable of that name (\<open>None\<close> while
  unbound); \<open>iters\<close> holds the remaining items of every plan iterator; \<open>monitors\<close>
  holds \<^verbatim>\<open>monitors[i].metrics\<close> and \<open>mtotals\<close> is \<^verbatim>\<open>summary.metrics\<close>. \<open>pipes\<close> are
  the descriptor pairs the coming calls of \<^verbatim>\<open>os.pipe()\<close> return; with none left the call
  raises.
\<close>

record dstate =
  available :: "lid list"
  statusd :: "(lid \<times> ref) list"
  status :: "ref option"
  heap :: "ref \<Rightarrow> status"
  nref :: ref
  iters :: "nat \<Rightarrow> procspec list"
  niter :: nat
  monitors :: "metrics list"
  mtotals :: metrics
  last_time :: clock
  processing :: bool
  message_count :: nat
  trace :: "event list"
  pipes :: "(fd \<times> fd) list"

definition emit :: "event list \<Rightarrow> dstate \<Rightarrow> dstate" where
  "emit es s = s\<lparr>trace := trace s @ es\<rparr>"

text \<open>Assignment to and deletion of a key of an insertion-ordered dictionary.\<close>

fun dict_set :: "nat \<Rightarrow> 'a \<Rightarrow> (nat \<times> 'a) list \<Rightarrow> (nat \<times> 'a) list" where
  "dict_set k v [] = [(k, v)]"
| "dict_set k v ((k', v') # d) = (if k' = k then (k, v) # d else (k', v') # dict_set k v d)"

definition dict_del :: "nat \<Rightarrow> (nat \<times> 'a) list \<Rightarrow> (nat \<times> 'a) list" where
  "dict_del k d = filter (\<lambda>(k', v). k' \<noteq> k) d"

section \<open>The dispatch loop: operations\<close>

text \<open>
  \<^verbatim>\<open>_launch(status)\<close>, with the dictionary given by its address. The result is the
  exception that propagates, \<^verbatim>\<open>None\<close>, or \<^verbatim>\<open>(rfd, category, dimensions)\<close>.
  \<^verbatim>\<open>os.close\<close> of a descriptor just obtained from \<^verbatim>\<open>os.pipe()\<close> does not fail.
\<close>

definition launch :: "ref \<Rightarrow> dstate \<Rightarrow> dstate \<times> (exn + (fd \<times> string \<times> string list) option)" where
  "launch r s =
     (case st_process_queue (heap s r) of
        None \<Rightarrow> (s, Inl KeyError)
      | Some it \<Rightarrow>
          (case iters s it of
             [] \<Rightarrow> (s, Inr None)
           | (category, dimensions, xqual, xcontext, k) # rest \<Rightarrow>
               let s1 = s\<lparr>iters := (iters s)(it := rest),
                          heap := (heap s)(r := (heap s r)\<lparr>st_channel := Some (Some xqual)\<rparr>)\<rparr>
               in (case pipes s1 of
                     [] \<Rightarrow> (s1, Inl (OSError ''pipe''))
                   | (rfd, wfd) # ps \<Rightarrow>
                       let s2 = emit [Pipe rfd wfd, Spawn k wfd] (s1\<lparr>pipes := ps\<rparr>)
                       in (case spawn k of
                             Inr p \<Rightarrow>
                               (emit [Close wfd]
                                  (s2\<lparr>heap := (heap s2)(r := (heap s2 r)\<lparr>st_pid := Some p\<rparr>)\<rparr>),
                                Inr (Some (rfd, category, dimensions)))
                           | Inl e \<Rightarrow> (emit [Close rfd, Close wfd] s2, Inl e)))))"

text \<open>
  One pass of the admission loop (lines 110 to 132), for one work item of
  \<^verbatim>\<open>queue.take(len(available))\<close>. \<^verbatim>\<open>available.popleft()\<close> raises IndexError on an empty
  deque and \<^verbatim>\<open>monitors[lid]\<close> on an index out of range; \<^verbatim>\<open>plan(ident)\<close> is a finite
  sequence of process specs.
\<close>

definition admit_one :: "(ident \<Rightarrow> procspec list) \<Rightarrow> ident \<Rightarrow> dstate \<Rightarrow> dstate \<times> exn option" where
  "admit_one plan ident s =
     (case available s of
        [] \<Rightarrow> (s, Some IndexError)
      | l # av \<Rightarrow>
          let r = nref s;
              it = niter s;
              s1 = s\<lparr>available := av,
                     iters := (iters s)(it := plan ident), niter := Suc it,
                     heap := (heap s)(r := \<lparr>st_channel = Some None, st_source = Some ident,
                        st_process_queue = Some it, st_transactions = Some Map.empty,
                        st_pid = None\<rparr>),
                     nref := Suc r,
                     statusd := dict_set l r (statusd s),
                     status := Some r\<rparr>
          in if \<not> l < length (monitors s1) then (s1, Some IndexError)
             else
               let s2 = emit [MClear (Lane l)]
                          (s1\<lparr>monitors := (monitors s1)[l := clear (monitors s1 ! l)]\<rparr>)
               in (case launch r s2 of
                     (s3, Inl e) \<Rightarrow> (s3, Some e)
                   | (s3, Inr None) \<Rightarrow>
                       (case st_source (heap s3 r) of
                          None \<Rightarrow> (s3, Some KeyError)
                        | Some src \<Rightarrow>
                            (emit [Finish src, Erase (Lane l)] s3\<lparr>available := available s3 @ [l]\<rparr>,
                             None))
                   | (s3, Inr (Some (rfd, category, dimensions))) \<Rightarrow>
                       (emit [Title (Lane l) (Process category dimensions), Connect l rfd,
                              Install (Lane l)] s3,
                        None)))"

text \<open>The \<^verbatim>\<open>for ident in queue.take(len(available))\<close> loop; an exception ends it.\<close>

fun admit :: "(ident \<Rightarrow> procspec list) \<Rightarrow> ident list \<Rightarrow> dstate \<Rightarrow> dstate \<times> exn option" where
  "admit plan [] s = (s, None)"
| "admit plan (ident # idents) s =
     (case admit_one plan ident s of
        (s', Some e) \<Rightarrow> (s', Some e)
      | (s', None) \<Rightarrow> admit plan idents s')"

text \<open>
  The \<^verbatim>\<open>while available\<close> loop of lines 145 to 162 for one lane of \<^verbatim>\<open>sources\<close>: it
  launches further processes of that lane's plan on free lanes, each under a copy of the
  lane's status dictionary. The result \<open>Inr True\<close> is the \<^verbatim>\<open>break\<close> of line 150
  (the \<^verbatim>\<open>for\<close> loop goes on), \<open>Inr False\<close> the \<^verbatim>\<open>else\<close> clause of the \<^verbatim>\<open>while\<close>
  (the \<^verbatim>\<open>for\<close> loop ends). Every pass that does not leave the loop takes one lane
  from \<open>available\<close>, which \<open>launch\<close> does not touch: the loop terminates.
\<close>

lemma launch_available: "available (fst (launch r s)) = available s"
  by (simp add: launch_def emit_def Let_def split: option.splits list.splits prod.splits sum.splits)

lemma launch_available_eq: "(s', x) = launch r s \<Longrightarrow> available s' = available s"
  by (metis launch_available fst_conv)

function backfill_lane :: "lid \<Rightarrow> dstate \<Rightarrow> dstate \<times> (exn + bool)" where
  "backfill_lane l s =
     (if available s = [] then (s, Inr False)
      else
        (case map_of (statusd s) l of
           None \<Rightarrow> (s, Inl KeyError)
         | Some r0 \<Rightarrow>
             (case launch (nref s)
                     (s\<lparr>heap := (heap s)(nref s := heap s r0), nref := Suc (nref s),
                        status := Some (nref s)\<rparr>) of
                (s2, Inl e) \<Rightarrow> (s2, Inl e)
              | (s2, Inr None) \<Rightarrow> (s2, Inr True)
              | (s2, Inr (Some (rfd, category, dimensions))) \<Rightarrow>
                  (case available s2 of
                     [] \<Rightarrow> (s2, Inl IndexError)
                   | x # av \<Rightarrow>
                       if \<not> x < length (monitors s2)
                       then (s2\<lparr>available := av,
                               heap := (heap s2)(nref s := (heap s2 (nref s))\<lparr>st_transactions := Some Map.empty\<rparr>),
                               statusd := dict_set x (nref s) (statusd s2)\<rparr>,
                             Inl IndexError)
                       else backfill_lane l
                              (emit [Title (Lane x) (Process category dimensions), Connect x rfd,
                                     Install (Lane x)]
                                 (s2\<lparr>available := av,
                                     heap := (heap s2)(nref s := (heap s2 (nref s))\<lparr>st_transactions := Some Map.empty\<rparr>),
                                     statusd := dict_set x (nref s) (statusd s2)\<rparr>))))))"
  by pat_completeness auto
termination
proof (relation "measure (\<lambda>(l, s). length (available s))", goal_cases)
  case 1
  show ?case by simp
next
  case 2
  then show ?case
    by (auto simp: emit_def dest!: launch_available_eq)
qed

declare backfill_lane.simps [simp del]

text \<open>The \<^verbatim>\<open>for lid in sources\<close> loop of lines 144 to 162.\<close>

fun backfill :: "lid list \<Rightarrow> dstate \<Rightarrow> dstate \<times> exn option" where
  "backfill [] s = (s, None)"
| "backfill (l # ls) s =
     (case backfill_lane l s of
        (s', Inl e) \<Rightarrow> (s', Some e)
      | (s', Inr True) \<Rightarrow> backfill ls s'
      | (s', Inr False) \<Rightarrow> (s', None))"

text \<open>
  \<^verbatim>\<open>metrics.update(f, v, c)\<close> on the lane's entity followed by \<^verbatim>\<open>mtotals.update(f, v, c)\<close>,
  as every update of the event loop is written.
\<close>

definition both_update :: "lid \<Rightarrow> field \<Rightarrow> num \<Rightarrow> num \<Rightarrow> dstate \<Rightarrow> dstate" where
  "both_update l f v c s =
     emit [MUpdate (Lane l) f v c, MUpdate Summary f v c]
       (s\<lparr>monitors := (monitors s)[l := update (monitors s ! l) f v c],
          mtotals := update (mtotals s) f v c\<rparr>)"

text \<open>The loop over \<^verbatim>\<open>zip(fnames, funits, fcounts)\<close> of lines 214 to 216.\<close>

fun report_fields :: "lid \<Rightarrow> (field \<times> num \<times> num) list \<Rightarrow> dstate \<Rightarrow> dstate" where
  "report_fields l [] s = s"
| "report_fields l ((n, u, c) # rest) s = report_fields l rest (both_update l n u c s)"

text \<open>
  \<^verbatim>\<open>start, *messages, stop = xs\<close>: \<open>None\<close> is the ValueError that a sequence of fewer
  than two items raises.
\<close>

fun unpack_star :: "'a list \<Rightarrow> ('a \<times> 'a list \<times> 'a) option" where
  "unpack_star (x # y # ys) = Some (x, butlast (y # ys), last (y # ys))"
| "unpack_star xs = None"

text \<open>
  The metrics report of a frame (lines 205 to 216): the reported time goes to the field
  \<^verbatim>\<open>'duration'\<close>, then each reported field is updated by its units and counts.
\<close>

definition report_update :: "lid \<Rightarrow> msg \<Rightarrow> dstate \<Rightarrow> dstate" where
  "report_update l m s =
     (case msg_data m of
        Report True t fnames funits fcounts \<Rightarrow>
          report_fields l (zip fnames (zip funits fcounts)) (both_update l ''duration'' t 1 s)
      | _ \<Rightarrow> s)"

text \<open>
  The body of \<^verbatim>\<open>for channel, msg in sframes\<close> (lines 202 to 230) on lane \<open>l\<close> whose
  status dictionary is at \<open>r\<close>. \<open>xacts1\<close> is \<^verbatim>\<open>xacts\<close> after
  \<^verbatim>\<open>xacts[channel].append(msg)\<close>; \<^verbatim>\<open>xacts.pop(channel)\<close> removes the key before the
  unpacking is tried.
\<close>

definition handle_frame :: "lid \<Rightarrow> ref \<Rightarrow> chan \<times> msg \<Rightarrow> dstate \<Rightarrow> dstate \<times> exn option" where
  "handle_frame l r cm s =
     (case cm of (ch, m) \<Rightarrow>
       (case st_transactions (heap s r) of
          None \<Rightarrow> (s, Some KeyError)
        | Some xacts \<Rightarrow>
            let xacts1 = xacts(ch \<mapsto> (case xacts ch of None \<Rightarrow> [] | Some b \<Rightarrow> b) @ [m]);
                s1 = s\<lparr>heap := (heap s)(r := (heap s r)\<lparr>st_transactions := Some xacts1\<rparr>)\<rparr>;
                s2 = report_update l m s1
            in if msg_symbol m = ''transaction-stopped'' then
                 let s3 = both_update l ''executing'' (- 1) 0 s2
                 in (case xacts1 ch of
                       None \<Rightarrow> (s3, Some KeyError)
                     | Some b \<Rightarrow>
                         let s4 = s3\<lparr>heap := (heap s3)(r := (heap s3 r)\<lparr>st_transactions := Some (xacts1(ch := None))\<rparr>)\<rparr>
                         in (case unpack_star b of
                               None \<Rightarrow> (s4, None)
                             | Some (start, messages, stop) \<Rightarrow>
                                 (case st_channel (heap s4 r) of
                                    None \<Rightarrow> (s4, Some KeyError)
                                  | Some q \<Rightarrow> (emit [Eox l stop start messages q] s4, None))))
               else if msg_symbol m = ''transaction-started'' then
                 (both_update l ''executing'' 1 0 s2, None)
               else (s2, None)))"

fun handle_frames :: "lid \<Rightarrow> ref \<Rightarrow> (chan \<times> msg) list \<Rightarrow> dstate \<Rightarrow> dstate \<times> exn option" where
  "handle_frames l r [] s = (s, None)"
| "handle_frames l r (cm # cms) s =
     (case handle_frame l r cm s of
        (s', Some e) \<Rightarrow> (s', Some e)
      | (s', None) \<Rightarrow> handle_frames l r cms s')"

text \<open>
  The branch \<^verbatim>\<open>if sframes is None\<close> (lines 173 to 196): the process of the lane has
  closed its output. \<open>reap p\<close> is the exit status that \<^verbatim>\<open>execution.reap(p, options=0)\<close>
  returns.
\<close>

definition closed :: "(pid \<Rightarrow> int) \<Rightarrow> lid \<Rightarrow> ref \<Rightarrow> dstate \<Rightarrow> dstate \<times> exn option" where
  "closed reap l r s =
     (case st_pid (heap s r) of
        None \<Rightarrow> (s, Some KeyError)
      | Some p \<Rightarrow>
          (case st_channel (heap s r) of
             None \<Rightarrow> (emit [Reap p] s, Some KeyError)
           | Some q \<Rightarrow>
               (case launch r (emit [Reap p, Eop l q p (reap p)] s) of
                  (s2, Inl e) \<Rightarrow> (s2, Some e)
                | (s2, Inr next_channel) \<Rightarrow>
                    let s3 = emit [MClear (Lane l)]
                               (s2\<lparr>monitors := (monitors s2)[l := clear (monitors s2 ! l)]\<rparr>)
                    in (case next_channel of
                          Some (rfd, category, dimensions) \<Rightarrow>
                            (emit [Connect l rfd, Title (Lane l) (Process category dimensions),
                                   Install (Lane l)] s3,
                             None)
                        | None \<Rightarrow>
                            (case st_source (heap s3 r) of
                               None \<Rightarrow> (s3, Some KeyError)
                             | Some src \<Rightarrow>
                                 (emit [Finish src, Title Summary QueueStatus, Install Summary]
                                    (s3\<lparr>statusd := dict_del l (statusd s3),
                                        available := available s3 @ [l],
                                        heap := (heap s3)(r := cleared)\<rparr>),
                                  None))))))"

text \<open>
  The body of \<^verbatim>\<open>for lid, sframes in ioa\<close> (lines 166 to 230) for one item of the polling
  pass: \<open>None\<close> for a closed source, or the frames decoded since the previous pass.
\<close>

definition poll_one ::
  "(pid \<Rightarrow> int) \<Rightarrow> lid \<times> (chan \<times> msg) list option \<Rightarrow> dstate \<Rightarrow> dstate \<times> exn option" where
  "poll_one reap item s =
     (case item of (l, sframes) \<Rightarrow>
       (case map_of (statusd s) l of
          None \<Rightarrow> (s, Some KeyError)
        | Some r \<Rightarrow>
            let s0 = s\<lparr>status := Some r\<rparr>
            in if st_transactions (heap s0 r) = None \<or> st_source (heap s0 r) = None
               then (s0, Some KeyError)
               else if \<not> l < length (monitors s0) then (s0, Some IndexError)
               else (case sframes of
                       None \<Rightarrow> closed reap l r s0
                     | Some frames \<Rightarrow>
                         handle_frames l r frames
                           (s0\<lparr>message_count := message_count s0 + length frames\<rparr>))))"

fun poll ::
  "(pid \<Rightarrow> int) \<Rightarrow> (lid \<times> (chan \<times> msg) list option) list \<Rightarrow> dstate \<Rightarrow> dstate \<times> exn option" where
  "poll reap [] s = (s, None)"
| "poll reap (item # items) s =
     (case poll_one reap item s of
        (s', Some e) \<Rightarrow> (s', Some e)
      | (s', None) \<Rightarrow> poll reap items s')"

text \<open>
  The metrics tick (lines 233 to 254). \<open>tick_monitor\<close> is the body of
  \<^verbatim>\<open>for m in monitors\<close>; \<^verbatim>\<open>m.delta(deltas)\<close> is read after the commit and the trim.
\<close>

definition tick_monitor :: "num \<Rightarrow> num \<Rightarrow> lid \<Rightarrow> dstate \<Rightarrow> dstate" where
  "tick_monitor elapsed w i s =
     (let mm = monitors s ! i;
          deltas = changes mm;
          mm' = trim (commit mm elapsed) w
      in emit [MCommit (Lane i) elapsed, MTrim (Lane i) w, CtlUpdate (Lane i) (delta mm' deltas)]
           (s\<lparr>monitors := (monitors s)[i := mm']\<rparr>))"

definition measured :: "clock \<Rightarrow> clock \<Rightarrow> num" where
  "measured next_time previous =
     of_int (if next_time - previous = 0 then 1 else next_time - previous) / 1000"

definition tick :: "num \<Rightarrow> clock \<Rightarrow> dstate \<Rightarrow> dstate" where
  "tick w next_time s =
     (let elapsed = measured next_time (last_time s);
          s1 = fold (tick_monitor elapsed w) [0..<length (monitors s)] (s\<lparr>last_time := next_time\<rparr>);
          tdeltas = changes (mtotals s1);
          mt = trim (commit (mtotals s1) elapsed) w
      in emit [MCommit Summary elapsed, MTrim Summary w, Title Summary QueueStatus, Frame Summary,
               CtlUpdate Summary (delta mt tdeltas), Flush]
           (s1\<lparr>mtotals := mt\<rparr>))"

text \<open>
  What the collaborators answer during one pass of \<^verbatim>\<open>while processing\<close>: the items of
  \<^verbatim>\<open>queue.take\<close>, the value of \<^verbatim>\<open>queue.terminal()\<close>, the items of the polling pass over
  \<^verbatim>\<open>ioa\<close> and the reading of \<^verbatim>\<open>time()\<close>. The answers the pass does not ask for are
  ignored. The environment of a whole run adds the plan, the exit statuses that
  \<^verbatim>\<open>execution.reap\<close> returns, the exception that \<^verbatim>\<open>os.killpg\<close> raises for a process
  group (\<open>None\<close> when it succeeds) and the \<^verbatim>\<open>window\<close> argument.
\<close>

record input =
  taken :: "ident list"
  terminal :: bool
  polled :: "(lid \<times> (chan \<times> msg) list option) list"
  now :: clock

record env =
  e_plan :: "ident \<Rightarrow> procspec list"
  e_reap :: "pid \<Rightarrow> int"
  e_killpg :: "pid \<Rightarrow> exn option"
  e_window :: num

definition events_and_tick :: "env \<Rightarrow> input \<Rightarrow> dstate \<Rightarrow> dstate \<times> exn option" where
  "events_and_tick e inp s =
     (case poll (e_reap e) (polled inp) s of
        (s1, Some x) \<Rightarrow> (s1, Some x)
      | (s1, None) \<Rightarrow> (tick (e_window e) (now inp) s1, None))"

text \<open>One pass of the body of \<^verbatim>\<open>while processing\<close> (lines 107 to 254).\<close>

definition iteration :: "env \<Rightarrow> input \<Rightarrow> dstate \<Rightarrow> dstate \<times> exn option" where
  "iteration e inp s =
     (if available s \<noteq> [] then
        (case admit (e_plan e) (taken inp) (emit [Take (length (available s))] s) of
           (s1, Some x) \<Rightarrow> (s1, Some x)
         | (s1, None) \<Rightarrow>
             let s2 = emit [Flush] s1
             in if terminal inp then
                  if statusd s2 = [] then (s2\<lparr>processing := False\<rparr>, None)
                  else if available s2 \<noteq> [] then
                    (case backfill (map fst (statusd s2)) s2 of
                       (s3, Some x) \<Rightarrow> (s3, Some x)
                     | (s3, None) \<Rightarrow> events_and_tick e inp s3)
                  else events_and_tick e inp s2
                else events_and_tick e inp s2)
      else events_and_tick e inp s)"

text \<open>
  The \<^verbatim>\<open>while processing\<close> loop over the answers of the collaborators, one \<open>input\<close>
  for each pass. The loop ends normally when \<open>processing\<close> is false and with an
  exception when a pass raises one; it is still running (\<open>None\<close>) when the answers are
  used up.
\<close>

fun loop :: "env \<Rightarrow> input list \<Rightarrow> dstate \<Rightarrow> (dstate \<times> exn option) option" where
  "loop e [] s = (if processing s then None else Some (s, None))"
| "loop e (inp # inps) s =
     (if \<not> processing s then Some (s, None)
      else (case iteration e inp s of
              (s', Some x) \<Rightarrow> Some (s', Some x)
            | (s', None) \<Rightarrow> loop e inps s'))"

text \<open>
  The body of \<^verbatim>\<open>for lid in statusd\<close> in the \<^verbatim>\<open>finally\<close> clause (lines 260 to 265). The
  \<^verbatim>\<open>try\<close> covers \<^verbatim>\<open>statusd[lid]['pid']\<close> and \<^verbatim>\<open>os.killpg\<close>, and catches KeyError and
  ProcessLookupError; the \<^verbatim>\<open>else\<close> clause reads \<^verbatim>\<open>status['pid']\<close> from the local
  variable \<^verbatim>\<open>status\<close>, outside the \<^verbatim>\<open>try\<close>.
\<close>

definition kill_one :: "(pid \<Rightarrow> exn option) \<Rightarrow> lid \<Rightarrow> dstate \<Rightarrow> dstate \<times> exn option" where
  "kill_one killpg l s =
     (case map_of (statusd s) l of
        None \<Rightarrow> (s, None)
      | Some r \<Rightarrow>
          (case st_pid (heap s r) of
             None \<Rightarrow> (s, None)
           | Some p \<Rightarrow>
               (case killpg p of
                  Some x \<Rightarrow>
                    (emit [Killpg p] s,
                     if x = KeyError \<or> x = ProcessLookupError then None else Some x)
                | None \<Rightarrow>
                    (case status s of
                       None \<Rightarrow> (emit [Killpg p] s, Some UnboundLocalError)
                     | Some r' \<Rightarrow>
                         (case st_pid (heap s r') of
                            None \<Rightarrow> (emit [Killpg p] s, Some KeyError)
                          | Some p' \<Rightarrow> (emit [Killpg p, Reap p'] s, None))))))"

fun kill_all :: "(pid \<Rightarrow> exn option) \<Rightarrow> lid list \<Rightarrow> dstate \<Rightarrow> dstate \<times> exn option" where
  "kill_all killpg [] s = (s, None)"
| "kill_all killpg (l # ls) s =
     (case kill_one killpg l s of
        (s', Some x) \<Rightarrow> (s', Some x)
      | (s', None) \<Rightarrow> kill_all killpg ls s')"

text \<open>
  The \<^verbatim>\<open>finally\<close> clause (lines 257 to 265), entered with the exception \<open>raised\<close> that
  left the \<^verbatim>\<open>try\<close> block, if any. An exception of the clause itself replaces it.
\<close>

definition cleanup :: "(pid \<Rightarrow> exn option) \<Rightarrow> exn option \<Rightarrow> dstate \<Rightarrow> dstate \<times> exn option" where
  "cleanup killpg raised s =
     (case kill_all killpg (map fst (statusd s)) (emit [Exit] s) of
        (s', Some x) \<Rightarrow> (s', Some x)
      | (s', None) \<Rightarrow> (s', raised))"

text \<open>
  The state at the \<^verbatim>\<open>try\<close> of \<^verbatim>\<open>dispatch\<close> (lines 89 to 102): \<open>ms\<close> are the Metrics
  entities of \<^verbatim>\<open>monitors\<close>, \<open>summary\<close> the one of \<^verbatim>\<open>summary\<close>, \<open>t0\<close> the first reading
  of the clock and \<open>ps\<close> what \<^verbatim>\<open>os.pipe()\<close> is going to return.
\<close>

definition initial_state :: "metrics list \<Rightarrow> metrics \<Rightarrow> clock \<Rightarrow> (fd \<times> fd) list \<Rightarrow> dstate" where
  "initial_state ms summary t0 ps =
     \<lparr>available = [0..<length ms], statusd = [], status = None, heap = (\<lambda>r. cleared), nref = 0,
      iters = (\<lambda>i. []), niter = 0, monitors = ms, mtotals = clear summary, last_time = t0,
      processing = True, message_count = 0, trace = [Title Summary Star, MClear Summary],
      pipes = ps\<rparr>"

text \<open>
  \<^verbatim>\<open>dispatch\<close>: the result is the final state and the exception that leaves the function,
  if any; \<open>None\<close> when the loop is still running at the end of the given answers.
\<close>

definition dispatch ::
  "env \<Rightarrow> metrics list \<Rightarrow> metrics \<Rightarrow> clock \<Rightarrow> (fd \<times> fd) list \<Rightarrow> input list
     \<Rightarrow> (dstate \<times> exn option) option" where
  "dispatch e ms summary t0 ps inps =
     (case loop e inps (emit [Enter] (initial_state ms summary t0 ps)) of
        None \<Rightarrow> None
      | Some (s, raised) \<Rightarrow> Some (cleanup (e_killpg e) raised s))"

section \<open>Observations on a run\<close>

text \<open>
  The descriptors open after a sequence of calls, starting from the open set \<open>F\<close>:
  \<^verbatim>\<open>os.pipe()\<close> opens the two it returns and \<^verbatim>\<open>os.close\<close> closes one.
\<close>

fun descriptors :: "fd set \<Rightarrow> event list \<Rightarrow> fd set" where
  "descriptors F [] = F"
| "descriptors F (Pipe r w # es) = descriptors (insert w (insert r F)) es"
| "descriptors F (Close d # es) = descriptors (F - {d}) es"
| "descriptors F (e # es) = descriptors F es"

text \<open>The invocations of the end-of-transaction trap made so far.\<close>

fun is_eox :: "event \<Rightarrow> bool" where
  "is_eox (Eox l stop first_frame messages q) = True"
| "is_eox e = False"

definition eox_calls :: "dstate \<Rightarrow> event list" where
  "eox_calls s = filter is_eox (trace s)"

text \<open>
  The frames accumulated for a channel in the status dictionary at \<open>r\<close> (none when the
  channel has no entry), and whether the channel has an entry at all.
\<close>

definition buffer :: "dstate \<Rightarrow> ref \<Rightarrow> chan \<Rightarrow> msg list" where
  "buffer s r ch =
     (case st_transactions (heap s r) of
        None \<Rightarrow> []
      | Some xacts \<Rightarrow> (case xacts ch of None \<Rightarrow> [] | Some b \<Rightarrow> b))"

definition has_buffer :: "dstate \<Rightarrow> ref \<Rightarrow> chan \<Rightarrow> bool" where
  "has_buffer s r ch =
     (case st_transactions (heap s r) of None \<Rightarrow> False | Some xacts \<Rightarrow> xacts ch \<noteq> None)"

text \<open>
  What a tick is expected to do with lane \<open>i\<close>, given the entities \<open>ms\<close> the lanes had
  before it: commit, trim, and one notification of the control layer.
\<close>

definition lane_tick_events :: "num \<Rightarrow> num \<Rightarrow> metrics list \<Rightarrow> lid \<Rightarrow> event list" where
  "lane_tick_events elapsed w ms i =
     [MCommit (Lane i) elapsed, MTrim (Lane i) w,
      CtlUpdate (Lane i) (delta (trim (commit (ms ! i) elapsed) w) (changes (ms ! i)))]"

section \<open>Scenarios of the dispatch loop\<close>

text \<open>One lane that has admitted a work item and runs its only process.\<close>

definition one_process_plan :: "ident \<Rightarrow> procspec list" where
  "one_process_plan i = [(''build'', [], ''xq'', ''ctx'', Spawns 100)]"

definition running :: dstate where
  "running = fst (admit_one one_process_plan ''job''
     (emit [Enter] (initial_state [Metrics 8] (Metrics 8) 0 [(3, 4)])))"

definition started_frame :: msg where
  "started_frame = \<lparr>msg_symbol = ''transaction-started'', msg_data = Other\<rparr>"

definition stopped_frame :: msg where
  "stopped_frame = \<lparr>msg_symbol = ''transaction-stopped'', msg_data = Other\<rparr>"

text \<open>
  A whole run of one lane and one work item: the process opens and closes a transaction
  on channel \<open>c\<close> during the first pass and has closed its output at the second, after
  which the queue is terminal.
\<close>

definition job_env :: env where
  "job_env = \<lparr>e_plan = one_process_plan, e_reap = (\<lambda>p. 0), e_killpg = (\<lambda>p. None), e_window = 8\<rparr>"

definition job_script :: "input list" where
  "job_script =
     [\<lparr>taken = [''job''], terminal = False,
       polled = [(0, Some [(''c'', started_frame), (''c'', stopped_frame)])], now = 10\<rparr>,
      \<lparr>taken = [], terminal = True, polled = [(0, None)], now = 20\<rparr>,
      \<lparr>taken = [], terminal = True, polled = [], now = 30\<rparr>]"

definition not_update :: "event \<Rightarrow> bool" where
  "not_update e = (case e of CtlUpdate t d \<Rightarrow> False | _ \<Rightarrow> True)"

text \<open>
  Three lanes and three work items of one process each; the launch descriptor of the
  third raises. \<^verbatim>\<open>os.killpg\<close> succeeds for every process group.
\<close>

definition failing_plan :: "ident \<Rightarrow> procspec list" where
  "failing_plan i =
     (if i = ''a'' then [(''build'', [], ''qa'', ''ctx'', Spawns 100)]
      else if i = ''b'' then [(''build'', [], ''qb'', ''ctx'', Spawns 101)]
      else [(''build'', [], ''qc'', ''ctx'', Fails (OSError ''spawn''))])"

definition failing_env :: env where
  "failing_env = \<lparr>e_plan = failing_plan, e_reap = (\<lambda>p. 0), e_killpg = (\<lambda>p. None), e_window = 8\<rparr>"

definition first_pass :: input where
  "first_pass = \<lparr>taken = [''a'', ''b'', ''c''], terminal = False, polled = [], now = 5\<rparr>"

text \<open>
  One lane and a queue whose only work item has an empty plan; after it the queue is
  terminal and hands out nothing more.
\<close>

definition empty_env :: env where
  "empty_env = \<lparr>e_plan = (\<lambda>i. []), e_reap = (\<lambda>p. 0), e_killpg = (\<lambda>p. None), e_window = 8\<rparr>"

definition only_pass :: input where
  "only_pass = \<lparr>taken = [''a''], terminal = True, polled = [], now = 5\<rparr>"

definition idle_pass :: input where
  "idle_pass = \<lparr>taken = [], terminal = True, polled = [], now = 5\<rparr>"

text \<open>
  A status dictionary whose plan iterator yields a process spec that fails to spawn, in
  a state where \<^verbatim>\<open>os.pipe()\<close> is going to return the descriptors 3 and 4.
\<close>

definition failing_launch :: dstate where
  "failing_launch = (initial_state [Metrics 8] (Metrics 8) 0 [(3, 4)])
     \<lparr>heap := (\<lambda>r. cleared\<lparr>st_process_queue := Some 0\<rparr>),
      iters := (\<lambda>i. [(''build'', [], ''xq'', ''ctx'', Fails (OSError ''spawn''))])\<rparr>"

text \<open>The running lane after its process has opened a transaction on channel \<open>c\<close>.\<close>

definition ticking :: dstate where
  "ticking = fst (handle_frame 0 0 (''c'', started_frame) running)"

text \<open>
  A loop that cannot end: lane 0 is free, yet the session table still holds a status
  dictionary for it whose plan iterator is exhausted.
\<close>

definition stuck :: "dstate \<Rightarrow> bool" where
  "stuck s \<longleftrightarrow> processing s \<and> available s = [0]
     \<and> (\<exists>r it. statusd s = [(0, r)] \<and> r < nref s
           \<and> st_process_queue (heap s r) = Some it \<and> iters s it = [])"

section \<open>The scenarios of the test suite\<close>

definition three_commits :: metrics where
  "three_commits = run_calls (Metrics 4)
     [Update ''k'' 10 1, Commit 2, Update ''k'' 10 1, Commit 2, Update ''k'' 10 1, Commit 2]"

definition four_commits :: metrics where
  "four_commits = run_calls three_commits [Update ''k'' 10 1, Commit 2]"

section \<open>Properties of the metrics engine\<close>

lemma get0_empty: "get0 Map.empty f = 0"
  by (simp add: get0_def)

lemma get0_upd: "get0 (d(g \<mapsto> v)) f = (if f = g then v else get0 d f)"
  by (simp add: get0_def)

lemma get0_fold_pending: "get0 (fold_pending snap cur) f = get0 snap f + get0 cur f"
  by (simp add: get0_def fold_pending_def split: option.splits)

lemma get0_current_update:
  "get0 (current (update m g v c)) f
     = (if f = g then get0 (current m) g + v else get0 (current m) f)"
  by (simp add: update_def get0_def)

lemma current_commit: "current (commit m e) = Map.empty"
  by (simp add: commit_def Let_def)

lemma current_run_calls:
  "get0 (current (run_calls m cs)) f = pending_from f (get0 (current m) f) cs"
proof (induction cs arbitrary: m)
  case Nil
  show ?case by simp
next
  case (Cons c cs)
  show ?case
  proof (cases c)
    case (Update g v n)
    then show ?thesis by (auto simp add: Cons.IH get0_current_update)
  next
    case (Commit e)
    then show ?thesis by (simp add: Cons.IH current_commit get0_empty)
  qed
qed

text \<open>
  C1. Whatever updates and commits an entity has gone through, \<open>total(field)\<close> is
  \<open>snapshot.get(field, 0) + current.get(field, 0)\<close>, which is \<open>recent(field)\<close> plus the
  sum of the deltas pending since the last commit; \<open>recent(field)\<close> is
  \<open>snapshot.get(field, 0)\<close>, and a further update does not change it.
\<close>

theorem metrics_total_invariant:
  "metrics_total (run_calls m cs) f
     = get0 (snapshot (run_calls m cs)) f + get0 (current (run_calls m cs)) f
   \<and> metrics_total (run_calls m cs) f
     = recent (run_calls m cs) f + pending_from f (get0 (current m) f) cs
   \<and> metrics_total (run_calls (Metrics w) cs) f
     = recent (run_calls (Metrics w) cs) f + pending f cs
   \<and> recent (run_calls m cs) f = get0 (snapshot (run_calls m cs)) f
   \<and> recent (update (run_calls m cs) g v c) f = recent (run_calls m cs) f"
  by (simp add: metrics_total_def recent_def current_run_calls pending_def update_def
      Metrics_def get0_empty)

theorem metrics_total_invariant_witness:
  "metrics_total (run_calls (Metrics 8) [Update ''k'' 1 1]) ''k'' = 1
   \<and> recent (run_calls (Metrics 8) [Update ''k'' 1 1]) ''k'' = 0
   \<and> metrics_total (run_calls (Metrics 8)
        [Update ''k'' 1 1, Commit 2, Update ''k'' 1 1, Update ''k'' 1 1]) ''k'' = 3
   \<and> recent (run_calls (Metrics 8)
        [Update ''k'' 1 1, Commit 2, Update ''k'' 1 1, Update ''k'' 1 1]) ''k'' = 1"
  using metrics_total_invariant [of "Metrics 8" "[Update ''k'' 1 1]" "''k''" 8 "''k''" 1 1]
    metrics_total_invariant [of "Metrics 8"
      "[Update ''k'' 1 1, Commit 2, Update ''k'' 1 1, Update ''k'' 1 1]" "''k''" 8 "''k''" 1 1]
  by (simp add: pending_def Metrics_def update_def commit_def Let_def get0_def
      fold_pending_def recent_def)

text \<open>
  C3. \<open>rate(field)\<close> is \<open>total(field) / duration\<close>; it raises ZeroDivisionError exactly
  when the duration is zero, as it is on a fresh entity and stays under updates, and it
  raises nothing else: the error is returned to the caller.
\<close>

theorem rate_division_by_zero:
  "(rate m f = Inl ZeroDivisionError) = (duration m = 0)
   \<and> (rate m f = Inr (metrics_total m f / duration m)) = (duration m \<noteq> 0)
   \<and> (\<exists>e. rate m f = Inl e \<and> e \<noteq> ZeroDivisionError) = False
   \<and> rate (Metrics w) f = Inl ZeroDivisionError
   \<and> duration (update m g v c) = duration m"
  by (auto simp add: rate_def Metrics_def update_def)

theorem rate_division_by_zero_witness:
  "rate (update (Metrics 8) ''k'' 1 1) ''k'' = Inl ZeroDivisionError
   \<and> rate (commit (update (Metrics 8) ''k'' 1 1) 2) ''k'' = Inr (1 / 2)"
  using rate_division_by_zero [of "update (Metrics 8) ''k'' 1 1" "''k''" 8 "''k''" 1 1]
    rate_division_by_zero [of "commit (update (Metrics 8) ''k'' 1 1) 2" "''k''" 8 "''k''" 1 1]
  by (simp add: Metrics_def update_def commit_def Let_def metrics_total_def get0_def
      fold_pending_def)

text \<open>
  C5. \<open>commit(elapsed)\<close> adds each pending delta to the snapshot value of its field and
  leaves the other fields alone, appends exactly one history entry (the new snapshot with
  the elapsed time), adds the elapsed time to the duration and empties current, so that
  \<open>changes()\<close> is empty right after it; \<open>commit(0)\<close> on a fresh entity gives a history
  of length 1 and duration 0.
\<close>

theorem commit_folds_pending:
  "get0 (snapshot (commit m e)) f = get0 (snapshot m) f + get0 (current m) f
   \<and> snapshot (commit m e) f
       = (case current m f of None \<Rightarrow> snapshot m f | Some v \<Rightarrow> Some (get0 (snapshot m) f + v))
   \<and> history (commit m e) = history m @ [(snapshot (commit m e), e)]
   \<and> length (history (commit m e)) = Suc (length (history m))
   \<and> duration (commit m e) = duration m + e
   \<and> current (commit m e) = Map.empty
   \<and> changes (commit m e) = {}
   \<and> length (history (commit (Metrics w) 0)) = 1
   \<and> duration (commit (Metrics w) 0) = 0"
  by (simp add: commit_def Let_def get0_fold_pending changes_def Metrics_def)
     (simp add: fold_pending_def)

theorem commit_folds_pending_witness:
  "recent (commit (update (update (Metrics 8) ''k'' 1 1) ''k'' 2 1) 1) ''k'' = 3
   \<and> length (history (commit (update (update (Metrics 8) ''k'' 1 1) ''k'' 2 1) 1)) = 1
   \<and> duration (commit (update (update (Metrics 8) ''k'' 1 1) ''k'' 2 1) 1) = 1
   \<and> changes (commit (update (update (Metrics 8) ''k'' 1 1) ''k'' 2 1) 1) = {}"
  using commit_folds_pending [of "update (update (Metrics 8) ''k'' 1 1) ''k'' 2 1" 1 "''k''" 8]
  by (simp add: recent_def Metrics_def update_def get0_def)


subsection \<open>Trimming\<close>

lemma marked_back_le:
  "\<forall>e \<in> set es. 0 \<le> snd e \<Longrightarrow> (e, t) \<in> set (marked_back d es) \<Longrightarrow> t \<le> d"
proof (induction es arbitrary: d)
  case Nil
  then show ?case by simp
next
  case (Cons x xs)
  from Cons.prems(2) consider "t = d" | "(e, t) \<in> set (marked_back (d - snd x) xs)"
    by auto
  then show ?case
  proof cases
    case 1
    then show ?thesis by simp
  next
    case 2
    with Cons.IH [of "d - snd x"] Cons.prems(1) have "t \<le> d - snd x" by simp
    moreover from Cons.prems(1) have "0 \<le> snd x" by simp
    ultimately show ?thesis by simp
  qed
qed

lemma marked_back_filter_below:
  assumes "\<forall>e \<in> set es. 0 \<le> snd e" and "d < c"
  shows "filter (\<lambda>(e, t). c \<le> t) (marked_back d es) = []"
proof -
  have "\<not> c \<le> t" if "(e, t) \<in> set (marked_back d es)" for e t
    using marked_back_le [OF assms(1) that] assms(2) by simp
  then show ?thesis by (auto simp: filter_empty_conv)
qed

lemma marked_back_filter:
  "\<forall>e \<in> set es. 0 \<le> snd e \<Longrightarrow>
     marked_back d (map fst (filter (\<lambda>(e, t). c \<le> t) (marked_back d es)))
       = filter (\<lambda>(e, t). c \<le> t) (marked_back d es)"
proof (induction es arbitrary: d)
  case Nil
  show ?case by simp
next
  case (Cons x xs)
  from Cons.prems have nonneg: "\<forall>e \<in> set xs. 0 \<le> snd e" and x: "0 \<le> snd x"
    by simp_all
  show ?case
  proof (cases "c \<le> d")
    case True
    with Cons.IH [OF nonneg, of "d - snd x"] show ?thesis by simp
  next
    case False
    with x have "d - snd x < c" by simp
    from marked_back_filter_below [OF nonneg this] False show ?thesis by simp
  qed
qed

lemma end_markers_trim:
  assumes "\<forall>e \<in> set (history m). 0 \<le> snd e"
  shows "end_markers (trim m w) = filter (\<lambda>(e, t). duration m - w \<le> t) (end_markers m)"
proof -
  from assms have "\<forall>e \<in> set (rev (history m)). 0 \<le> snd e" by simp
  from marked_back_filter [OF this, of "duration m" "duration m - w"]
  show ?thesis
    by (simp add: end_markers_def trim_def rev_map rev_filter)
qed

text \<open>
  C4. On an entity whose committed intervals have no negative length, the history after
  \<open>trim(window=W)\<close> is the history before it without the entries whose end marker is
  below \<open>duration - W\<close>: every entry at or above the cutoff stays, with the end marker it
  had, so every retained end marker is at least \<open>duration - W\<close> and an entry exactly on
  the cutoff is retained. Snapshot, duration and current are unchanged, and so are
  \<open>total(field)\<close> and \<open>recent(field)\<close>.
\<close>

theorem trim_keeps_window:
  assumes "\<forall>e \<in> set (history m). 0 \<le> snd e"
  shows "end_markers (trim m w) = filter (\<lambda>(e, t). duration m - w \<le> t) (end_markers m)
    \<and> (\<forall>(e, t) \<in> set (end_markers (trim m w)). duration m - w \<le> t)
    \<and> snapshot (trim m w) = snapshot m
    \<and> duration (trim m w) = duration m
    \<and> current (trim m w) = current m
    \<and> metrics_total (trim m w) f = metrics_total m f
    \<and> recent (trim m w) f = recent m f"
proof -
  have "\<forall>(e, t) \<in> set (end_markers (trim m w)). duration m - w \<le> t"
    by (auto simp: end_markers_trim [OF assms])
  then show ?thesis
    by (simp add: end_markers_trim [OF assms])
       (simp add: trim_def metrics_total_def recent_def)
qed

subsection \<open>The test suite on the model\<close>

lemmas metrics_eval =
  three_commits_def four_commits_def Metrics_def update_def commit_def clear_def Let_def
  end_markers_def trim_def metrics_total_def recent_def rate_def get0_def fold_pending_def

lemma test_Metrics_init:
  "window (Metrics 12) = 12 \<and> history (Metrics 8) = [] \<and> current (Metrics 8) = Map.empty
   \<and> snapshot (Metrics 8) = Map.empty \<and> duration (Metrics 8) = 0"
  by (simp add: Metrics_def)

lemma test_Metrics_clear:
  "metrics_total (commit (update (Metrics 8) ''k'' 1 1) 1) ''k'' = 1
   \<and> duration (commit (update (Metrics 8) ''k'' 1 1) 1) = 1
   \<and> clear (commit (update (Metrics 8) ''k'' 1 1) 1) = Metrics 8"
  by (simp add: metrics_eval)

lemma test_Metrics_commit:
  "length (history (Metrics 8)) = 0
   \<and> duration (commit (Metrics 8) 0) = 0 \<and> length (history (commit (Metrics 8) 0)) = 1
   \<and> duration (commit (commit (Metrics 8) 0) 1) = 1
   \<and> length (history (commit (commit (Metrics 8) 0) 1)) = 2
   \<and> duration (commit (commit (commit (Metrics 8) 0) 1) 1) = 2
   \<and> length (history (commit (commit (commit (Metrics 8) 0) 1) 1)) = 3"
  by (simp add: metrics_eval)

lemma test_Metrics_changes:
  "changes (Metrics 8) = {}
   \<and> changes (update (update (update (Metrics 8) ''k1'' 1 1) ''k2'' 3 1) ''k3'' 3 1)
       = {''k1'', ''k2'', ''k3''}
   \<and> changes (commit (update (update (update (Metrics 8) ''k1'' 1 1) ''k2'' 3 1) ''k3'' 3 1) 1)
       = {}"
  by (auto simp add: changes_def metrics_eval split: if_splits)

lemma test_Metrics_trim:
  "length (history three_commits) = 3
   \<and> rate three_commits ''k'' = Inr 5
   \<and> rate (trim three_commits (window three_commits)) ''k'' = Inr 5
   \<and> length (history (trim three_commits (window three_commits))) = 3"
  by (simp add: metrics_eval)

lemma test_Metrics_trim_exclusion:
  "length (history four_commits) = 4
   \<and> rate four_commits ''k'' = Inr 5
   \<and> rate (trim four_commits (window four_commits)) ''k'' = Inr 5
   \<and> length (history (trim four_commits (window four_commits))) = 3"
  by (simp add: metrics_eval)

theorem trim_keeps_window_witness:
  "map snd (end_markers three_commits) = [2, 4, 6]
   \<and> map snd (end_markers (trim three_commits 4)) = [2, 4, 6]
   \<and> map snd (end_markers four_commits) = [2, 4, 6, 8]
   \<and> map snd (end_markers (trim four_commits 4)) = [4, 6, 8]
   \<and> metrics_total (trim four_commits 4) ''k'' = 40"
proof -
  have h3: "\<forall>e \<in> set (history three_commits). 0 \<le> snd e"
    by (simp add: metrics_eval)
  have h4: "\<forall>e \<in> set (history four_commits). 0 \<le> snd e"
    by (simp add: metrics_eval)
  from trim_keeps_window [OF h3, of 4 "''k''"] trim_keeps_window [OF h4, of 4 "''k''"]
  show ?thesis
    by (simp add: metrics_eval)
qed
section \<open>Properties of the dispatch loop\<close>

subsection \<open>Launching a process\<close>

lemma descriptors_append: "descriptors F (es @ es') = descriptors (descriptors F es) es'"
  by (induction F es rule: descriptors.induct) simp_all

text \<open>
  C9. When the spawn of \<^verbatim>\<open>_launch\<close> raises after \<^verbatim>\<open>os.pipe()\<close> has returned the pair
  \<open>(rfd, wfd)\<close>, the same exception leaves \<^verbatim>\<open>_launch\<close>, and before it does the read end
  and then the write end are closed: the calls made are the pipe, the spawn and the two
  closes, and the descriptors open afterwards are those that were open before, though
  both ends were open at the time of the spawn.
\<close>

theorem launch_failure_closes_pipe:
  assumes "st_process_queue (heap s r) = Some it"
    and "iters s it = (category, dimensions, xqual, xcontext, k) # rest"
    and "pipes s = (rfd, wfd) # ps"
    and "spawn k = Inl x"
    and "rfd \<notin> descriptors F (trace s)" and "wfd \<notin> descriptors F (trace s)"
  shows "snd (launch r s) = Inl x
    \<and> trace (fst (launch r s)) = trace s @ [Pipe rfd wfd, Spawn k wfd, Close rfd, Close wfd]
    \<and> descriptors F (trace s @ [Pipe rfd wfd, Spawn k wfd])
        = insert wfd (insert rfd (descriptors F (trace s)))
    \<and> descriptors F (trace (fst (launch r s))) = descriptors F (trace s)"
proof -
  from assms(1-4) have t: "trace (fst (launch r s))
      = trace s @ [Pipe rfd wfd, Spawn k wfd, Close rfd, Close wfd]"
    and x: "snd (launch r s) = Inl x"
    by (simp_all add: launch_def emit_def Let_def)
  from assms(5,6) have "descriptors F (trace s @ [Pipe rfd wfd, Spawn k wfd, Close rfd, Close wfd])
      = descriptors F (trace s)"
    by (auto simp add: descriptors_append)
  with t x show ?thesis
    by (simp add: descriptors_append)
qed

theorem launch_failure_closes_pipe_witness:
  "snd (launch 0 failing_launch) = Inl (OSError ''spawn'')
   \<and> trace (fst (launch 0 failing_launch))
       = trace failing_launch @ [Pipe 3 4, Spawn (Fails (OSError ''spawn'')) 4, Close 3, Close 4]
   \<and> descriptors {0, 1, 2} (trace (fst (launch 0 failing_launch))) = {0, 1, 2}"
proof -
  have d: "descriptors {0, 1, 2} (trace failing_launch) = {0, 1, 2}"
    by (simp add: failing_launch_def initial_state_def)
  have "st_process_queue (heap failing_launch 0) = Some 0"
    and "iters failing_launch 0 = (''build'', [], ''xq'', ''ctx'', Fails (OSError ''spawn'')) # []"
    and "pipes failing_launch = (3, 4) # []"
    and "spawn (Fails (OSError ''spawn'')) = Inl (OSError ''spawn'')"
    and "3 \<notin> descriptors {0, 1, 2} (trace failing_launch)"
    and "4 \<notin> descriptors {0, 1, 2} (trace failing_launch)"
    by (simp_all add: failing_launch_def initial_state_def cleared_def)
  from launch_failure_closes_pipe [OF this] d
  show ?thesis
    by metis
qed

lemma launch_success:
  assumes "st_process_queue (heap s r) = Some it"
    and "iters s it = (category, dimensions, xqual, xcontext, k) # rest"
    and "pipes s = (rfd, wfd) # ps"
    and "spawn k = Inr p"
  shows "snd (launch r s) = Inr (Some (rfd, category, dimensions))
    \<and> trace (fst (launch r s)) = trace s @ [Pipe rfd wfd, Spawn k wfd, Close wfd]
    \<and> st_pid (heap (fst (launch r s)) r) = Some p"
  using assms by (simp add: launch_def emit_def Let_def)

subsection \<open>Frames of a transaction\<close>

lemmas running_eval =
  running_def one_process_plan_def admit_one_def launch_def emit_def initial_state_def
  Let_def clear_def Metrics_def cleared_def started_frame_def stopped_frame_def

lemmas frame_eval =
  running_eval handle_frame_def both_update_def report_update_def update_def get0_def
  eox_calls_def buffer_def has_buffer_def metrics_total_def

lemma running_facts:
  "statusd running = [(0, 0)]" "status running = Some 0" "available running = []"
  "st_pid (heap running 0) = Some 100" "st_channel (heap running 0) = Some (Some ''xq'')"
  "st_transactions (heap running 0) = Some Map.empty" "st_source (heap running 0) = Some ''job''"
  "monitors running = [Metrics 8]" "mtotals running = Metrics 8"
  "trace running = [Title Summary Star, MClear Summary, Enter, MClear (Lane 0), Pipe 3 4,
     Spawn (Spawns 100) 4, Close 4, Title (Lane 0) (Process ''build'' []), Connect 0 3,
     Install (Lane 0)]"
  by (simp_all add: running_eval)

lemma both_update_simps:
  "heap (both_update l f v c s) = heap s"
  "trace (both_update l f v c s) = trace s @ [MUpdate (Lane l) f v c, MUpdate Summary f v c]"
  "monitors (both_update l f v c s) = (monitors s)[l := update (monitors s ! l) f v c]"
  "mtotals (both_update l f v c s) = update (mtotals s) f v c"
  by (simp_all add: both_update_def emit_def)

lemma both_update_heap: "both_update l f v c (s\<lparr>heap := h\<rparr>) = (both_update l f v c s)\<lparr>heap := h\<rparr>"
  by (simp add: both_update_def emit_def)

lemma report_fields_heap: "report_fields l xs (s\<lparr>heap := h\<rparr>) = (report_fields l xs s)\<lparr>heap := h\<rparr>"
  by (induction l xs s rule: report_fields.induct) (simp_all add: both_update_heap)

lemma report_update_heap: "report_update l m (s\<lparr>heap := h\<rparr>) = (report_update l m s)\<lparr>heap := h\<rparr>"
  by (simp add: report_update_def report_fields_heap both_update_heap split: data.splits bool.splits)

lemma eox_calls_heap: "eox_calls (s\<lparr>heap := h\<rparr>) = eox_calls s"
  by (simp add: eox_calls_def)

lemma eox_calls_emit: "eox_calls (emit es s) = eox_calls s @ filter is_eox es"
  by (simp add: eox_calls_def emit_def)

lemma heap_emit: "heap (emit es s) = heap s"
  by (simp add: emit_def)

lemma eox_calls_both_update: "eox_calls (both_update l f v c s) = eox_calls s"
  by (simp add: eox_calls_def both_update_simps)

lemma report_fields_frame:
  "heap (report_fields l xs s) = heap s \<and> eox_calls (report_fields l xs s) = eox_calls s"
  by (induction l xs s rule: report_fields.induct)
     (simp_all add: both_update_simps eox_calls_both_update)

lemma report_update_frame:
  "heap (report_update l m s) = heap s \<and> eox_calls (report_update l m s) = eox_calls s"
  by (simp add: report_update_def report_fields_frame both_update_simps eox_calls_both_update
      split: data.splits bool.splits)

lemma report_update_other: "msg_data m = Other \<Longrightarrow> report_update l m s = s"
  by (simp add: report_update_def)

lemma report_fields_length: "length (monitors (report_fields l xs s)) = length (monitors s)"
  by (induction l xs s rule: report_fields.induct) (simp_all add: both_update_simps)

lemma report_update_length: "length (monitors (report_update l m s)) = length (monitors s)"
  by (simp add: report_update_def report_fields_length both_update_simps
      split: data.splits bool.splits)

lemma unpack_star_snoc: "unpack_star (b # bs @ [m]) = Some (b, bs, m)"
  by (cases bs) (simp_all add: butlast_append)

lemma handle_frames_single: "handle_frames l r [cm] s = handle_frame l r cm s"
  by (simp split: prod.splits option.splits)

lemma handle_frames_step:
  "snd (handle_frame l r cm s) = None \<Longrightarrow>
     handle_frames l r (cm # cms) s = handle_frames l r cms (fst (handle_frame l r cm s))"
  by (cases "handle_frame l r cm s") auto

text \<open>
  C2. A \<^verbatim>\<open>transaction-stopped\<close> frame \<open>m\<close> on channel \<open>ch\<close> of a lane with a session
  (its status dictionary holds the transactions and the channel qualifier \<open>q\<close>) raises
  nothing and leaves the channel without a buffer. When frames \<open>b # bs\<close> had accumulated
  on the channel, so that with \<open>m\<close> the buffer holds a first and a last frame, the
  end-of-transaction trap is invoked exactly once more, for this lane's monitor with the
  stop frame \<open>m\<close>, the first frame \<open>b\<close>, the frames \<open>bs\<close> between them and \<open>q\<close>. When
  nothing had accumulated, the buffer of the single frame is dropped and the trap is not
  invoked.
\<close>

theorem stopped_invokes_eox_once:
  assumes "st_transactions (heap s r) = Some xacts"
    and "st_channel (heap s r) = Some q"
    and "msg_symbol m = ''transaction-stopped''"
  shows "snd (handle_frame l r (ch, m) s) = None
    \<and> \<not> has_buffer (fst (handle_frame l r (ch, m) s)) r ch
    \<and> eox_calls (fst (handle_frame l r (ch, m) s))
        = eox_calls s @ (case buffer s r ch of [] \<Rightarrow> [] | b # bs \<Rightarrow> [Eox l m b bs q])"
proof (cases "buffer s r ch")
  case Nil
  with assms show ?thesis
    by (auto simp add: handle_frame_def Let_def buffer_def has_buffer_def both_update_simps
        report_update_frame eox_calls_both_update eox_calls_heap eox_calls_emit heap_emit
        split: option.splits)
next
  case (Cons b bs)
  with assms have "xacts ch = Some (b # bs)"
    by (simp add: buffer_def split: option.splits)
  with assms Cons show ?thesis
    by (simp add: handle_frame_def Let_def buffer_def has_buffer_def both_update_simps
        report_update_frame eox_calls_both_update eox_calls_heap eox_calls_emit heap_emit
        unpack_star_snoc butlast_append)
qed

theorem stopped_invokes_eox_once_witness:
  "eox_calls (fst (handle_frames 0 0 [(''c'', started_frame), (''c'', stopped_frame)] running))
     = [Eox 0 stopped_frame started_frame [] (Some ''xq'')]
   \<and> \<not> has_buffer (fst (handle_frames 0 0 [(''c'', started_frame), (''c'', stopped_frame)] running)) 0 ''c''
   \<and> eox_calls (fst (handle_frames 0 0 [(''c'', stopped_frame)] running)) = []
   \<and> \<not> has_buffer (fst (handle_frames 0 0 [(''c'', stopped_frame)] running)) 0 ''c''"
proof -
  let ?s1 = "fst (handle_frame 0 0 (''c'', started_frame) running)"
  have lone: "st_transactions (heap running 0) = Some Map.empty"
    "st_channel (heap running 0) = Some (Some ''xq'')"
    "msg_symbol stopped_frame = ''transaction-stopped''"
    by (simp_all add: frame_eval)
  have pair: "st_transactions (heap ?s1 0) = Some [''c'' \<mapsto> [started_frame]]"
    "st_channel (heap ?s1 0) = Some (Some ''xq'')"
    by (simp_all add: frame_eval)
  have s1: "snd (handle_frame 0 0 (''c'', started_frame) running) = None"
    "eox_calls ?s1 = []" "buffer ?s1 0 ''c'' = [started_frame]"
    "eox_calls running = []" "buffer running 0 ''c'' = []"
    by (simp_all add: frame_eval)
  from stopped_invokes_eox_once [OF lone, of 0 "''c''"]
    stopped_invokes_eox_once [OF pair lone(3), of 0 "''c''"] s1
  show ?thesis
    by (simp add: handle_frames_single handle_frames_step del: handle_frames.simps)
qed

lemma total_update:
  "metrics_total (update m f v c) g = (if g = f then metrics_total m f + v else metrics_total m g)"
  by (simp add: metrics_total_def update_def get0_def)

text \<open>
  C10. A \<^verbatim>\<open>transaction-stopped\<close> frame on a lane with a session lowers the total of
  \<^verbatim>\<open>'executing'\<close> by one in the lane's Metrics and in the aggregate Metrics, on top of
  what the frame's metrics report adds (nothing when it carries none), whatever the
  buffer of the channel holds. The two updates are made before the buffer is unpacked:
  they come first in the calls of the frame, and the trap follows them only when the
  buffer held an earlier frame. A first stopped frame on a fresh lane therefore leaves
  the gauge at minus one.
\<close>

theorem stopped_decrements_executing:
  assumes "st_transactions (heap s r) = Some xacts"
    and "msg_symbol m = ''transaction-stopped''"
    and "l < length (monitors s)"
  shows "metrics_total (monitors (fst (handle_frame l r (ch, m) s)) ! l) ''executing''
           = metrics_total (monitors (report_update l m s) ! l) ''executing'' - 1
    \<and> metrics_total (mtotals (fst (handle_frame l r (ch, m) s))) ''executing''
           = metrics_total (mtotals (report_update l m s)) ''executing'' - 1
    \<and> (msg_data m = Other \<longrightarrow>
          metrics_total (monitors (fst (handle_frame l r (ch, m) s)) ! l) ''executing''
            = metrics_total (monitors s ! l) ''executing'' - 1
        \<and> metrics_total (mtotals (fst (handle_frame l r (ch, m) s))) ''executing''
            = metrics_total (mtotals s) ''executing'' - 1)
    \<and> trace (fst (handle_frame l r (ch, m) s))
          = trace (report_update l m s)
            @ [MUpdate (Lane l) ''executing'' (- 1) 0, MUpdate Summary ''executing'' (- 1) 0]
            @ (case st_channel (heap s r) of
                 None \<Rightarrow> []
               | Some q \<Rightarrow> (case buffer s r ch of [] \<Rightarrow> [] | b # bs \<Rightarrow> [Eox l m b bs q]))"
proof -
  have len: "length (monitors (report_update l m s)) = length (monitors s)"
    by (simp add: report_update_length)
  show ?thesis
    using assms len
    by (cases "xacts ch"; cases "st_channel (heap s r)"; cases "the (xacts ch)")
       (simp_all add: handle_frame_def Let_def report_update_heap both_update_simps
         total_update buffer_def emit_def report_update_other unpack_star_snoc)
qed

theorem stopped_decrements_executing_witness:
  "metrics_total (monitors (fst (handle_frame 0 0 (''c'', stopped_frame) running)) ! 0) ''executing'' = - 1
   \<and> metrics_total (mtotals (fst (handle_frame 0 0 (''c'', stopped_frame) running))) ''executing'' = - 1
   \<and> drop (length (trace running)) (trace (fst (handle_frame 0 0 (''c'', stopped_frame) running)))
       = [MUpdate (Lane 0) ''executing'' (- 1) 0, MUpdate Summary ''executing'' (- 1) 0]"
proof -
  have h: "st_transactions (heap running 0) = Some Map.empty"
    "msg_symbol stopped_frame = ''transaction-stopped''"
    "0 < length (monitors running)"
    by (simp_all add: frame_eval)
  have r: "msg_data stopped_frame = Other" "buffer running 0 ''c'' = []"
    "metrics_total (monitors running ! 0) ''executing'' = 0"
    "metrics_total (mtotals running) ''executing'' = 0"
    "report_update 0 stopped_frame running = running"
    by (simp_all add: frame_eval)
  from stopped_decrements_executing [OF h, of "''c''"] r
  show ?thesis
    by (simp split: option.splits)
qed

subsection \<open>The metrics tick\<close>

lemma lane_tick_events_cong:
  "ms ! i = ms' ! i \<Longrightarrow> lane_tick_events e w ms i = lane_tick_events e w ms' i"
  by (simp add: lane_tick_events_def)

lemma ticked_prefix:
  assumes "k < length ms"
  shows "(map g (take k ms) @ drop k ms)[k := g (ms ! k)] = map g (take (Suc k) ms) @ drop (Suc k) ms"
    and "(map g (take k ms) @ drop k ms) ! k = ms ! k"
proof -
  from assms have d: "drop k ms = ms ! k # drop (Suc k) ms"
    by (simp add: Cons_nth_drop_Suc)
  from assms have l: "length (map g (take k ms)) = k" by simp
  show "(map g (take k ms) @ drop k ms)[k := g (ms ! k)] = map g (take (Suc k) ms) @ drop (Suc k) ms"
    using assms by (simp add: d list_update_append take_Suc_conv_app_nth)
  show "(map g (take k ms) @ drop k ms) ! k = ms ! k"
    using assms l by (simp add: nth_append d)
qed

text \<open>
  The loop over the monitors, after \<open>k\<close> of them: the first \<open>k\<close> entities are committed
  and trimmed, the others untouched, and the calls were made lane by lane.
\<close>

lemma fold_tick_monitor_eq:
  "k \<le> length (monitors s) \<Longrightarrow>
     fold (tick_monitor e w) [0..<k] s
       = s\<lparr>monitors := map (\<lambda>m. trim (commit m e) w) (take k (monitors s)) @ drop k (monitors s),
           trace := trace s @ concat (map (lane_tick_events e w (monitors s)) [0..<k])\<rparr>"
proof (induction k)
  case 0
  show ?case by simp
next
  case (Suc k)
  then have k: "k < length (monitors s)" by simp
  let ?g = "\<lambda>m. trim (commit m e) w"
  let ?M = "map ?g (take k (monitors s)) @ drop k (monitors s)"
  let ?T = "trace s @ concat (map (lane_tick_events e w (monitors s)) [0..<k])"
  note tp = ticked_prefix [OF k, of ?g]
  have ev: "lane_tick_events e w ?M k = lane_tick_events e w (monitors s) k"
    by (rule lane_tick_events_cong) (simp add: tp(2))
  from Suc k have ih: "fold (tick_monitor e w) [0..<k] s = s\<lparr>monitors := ?M, trace := ?T\<rparr>"
    by simp
  have "fold (tick_monitor e w) [0..<Suc k] s = tick_monitor e w k (fold (tick_monitor e w) [0..<k] s)"
    by simp
  also have "\<dots> = tick_monitor e w k (s\<lparr>monitors := ?M, trace := ?T\<rparr>)"
    by (simp only: ih)
  also have "\<dots> = s\<lparr>monitors := ?M[k := ?g (?M ! k)], trace := ?T @ lane_tick_events e w ?M k\<rparr>"
    by (simp add: tick_monitor_def emit_def Let_def lane_tick_events_def)
  also have "?M[k := ?g (?M ! k)] = map ?g (take (Suc k) (monitors s)) @ drop (Suc k) (monitors s)"
    by (simp only: tp)
  also have "?T @ lane_tick_events e w ?M k
      = trace s @ concat (map (lane_tick_events e w (monitors s)) [0..<Suc k])"
    by (simp add: ev)
  finally show ?case .
qed

lemma tick_eq:
  "tick w t s
     = s\<lparr>last_time := t,
         monitors := map (\<lambda>m. trim (commit m (measured t (last_time s))) w) (monitors s),
         mtotals := trim (commit (mtotals s) (measured t (last_time s))) w,
         trace := trace s
           @ concat (map (lane_tick_events (measured t (last_time s)) w (monitors s))
                       [0..<length (monitors s)])
           @ [MCommit Summary (measured t (last_time s)), MTrim Summary w,
              Title Summary QueueStatus, Frame Summary,
              CtlUpdate Summary
                (delta (trim (commit (mtotals s) (measured t (last_time s))) w)
                   (changes (mtotals s))),
              Flush]\<rparr>"
  by (simp add: tick_def Let_def emit_def fold_tick_monitor_eq)

lemma delta_of_changes:
  "dom (delta (trim (commit m elapsed) w) (changes m)) = {f. get0 (current m) f \<noteq> 0}"
  "delta (trim (commit m elapsed) w) (changes m) f
     = (if get0 (current m) f \<noteq> 0 then Some (get0 (snapshot m) f + get0 (current m) f) else None)"
proof -
  show "dom (delta (trim (commit m elapsed) w) (changes m)) = {f. get0 (current m) f \<noteq> 0}"
    by (auto simp add: delta_def changes_def get0_def dom_def split: if_splits option.splits)
  have "recent (trim (commit m elapsed) w) f = get0 (snapshot m) f + get0 (current m) f"
    by (simp add: recent_def trim_def commit_def Let_def get0_fold_pending)
  then show "delta (trim (commit m elapsed) w) (changes m) f
     = (if get0 (current m) f \<noteq> 0 then Some (get0 (snapshot m) f + get0 (current m) f) else None)"
    by (auto simp add: delta_def changes_def get0_def dom_def split: option.splits)
qed

text \<open>
  C6. In a tick at clock reading \<open>t\<close>, the elapsed time is the difference to the previous
  reading, or one millisecond when that difference is zero, in seconds. Every lane's
  entity and then the aggregate entity are committed with that one value and trimmed to
  the window, and the calls come in this order: for lane 0, 1, ... the commit, the trim
  and the notification of the control layer, then the same for the summary (with its title
  and frame in between), then the flush. Each notification carries the delta for the
  fields that \<open>changes()\<close> gave before the commit, which are exactly the fields whose
  pending delta was not zero, each with its committed value.
\<close>

theorem tick_commits_lanes_then_summary:
  "measured t (last_time s)
     = (if t - last_time s = 0 then 1 / 1000 else of_int (t - last_time s) / 1000)
   \<and> monitors (tick w t s) = map (\<lambda>m. trim (commit m (measured t (last_time s))) w) (monitors s)
   \<and> mtotals (tick w t s) = trim (commit (mtotals s) (measured t (last_time s))) w
   \<and> last_time (tick w t s) = t
   \<and> trace (tick w t s)
       = trace s
         @ concat (map (lane_tick_events (measured t (last_time s)) w (monitors s))
                     [0..<length (monitors s)])
         @ [MCommit Summary (measured t (last_time s)), MTrim Summary w,
            Title Summary QueueStatus, Frame Summary,
            CtlUpdate Summary
              (delta (trim (commit (mtotals s) (measured t (last_time s))) w) (changes (mtotals s))),
            Flush]
   \<and> lane_tick_events elapsed w ms i
       = [MCommit (Lane i) elapsed, MTrim (Lane i) w,
          CtlUpdate (Lane i) (delta (trim (commit (ms ! i) elapsed) w) (changes (ms ! i)))]
   \<and> dom (delta (trim (commit m elapsed) w) (changes m)) = {f. get0 (current m) f \<noteq> 0}
   \<and> delta (trim (commit m elapsed) w) (changes m) f
       = (if get0 (current m) f \<noteq> 0 then Some (get0 (snapshot m) f + get0 (current m) f) else None)"
proof -
  have m: "measured t (last_time s)
     = (if t - last_time s = 0 then 1 / 1000 else of_int (t - last_time s) / 1000)"
    by (simp add: measured_def)
  have "monitors (tick w t s) = map (\<lambda>m. trim (commit m (measured t (last_time s))) w) (monitors s)"
    and "mtotals (tick w t s) = trim (commit (mtotals s) (measured t (last_time s))) w"
    and "last_time (tick w t s) = t"
    and "trace (tick w t s)
       = trace s
         @ concat (map (lane_tick_events (measured t (last_time s)) w (monitors s))
                     [0..<length (monitors s)])
         @ [MCommit Summary (measured t (last_time s)), MTrim Summary w,
            Title Summary QueueStatus, Frame Summary,
            CtlUpdate Summary
              (delta (trim (commit (mtotals s) (measured t (last_time s))) w) (changes (mtotals s))),
            Flush]"
    by (simp_all add: tick_eq)
  with m delta_of_changes [of m elapsed w] lane_tick_events_def [of elapsed w ms i]
  show ?thesis
    by blast
qed

lemma ticking_facts:
  "last_time ticking = 0"
  "trace ticking
     = trace running @ [MUpdate (Lane 0) ''executing'' 1 0, MUpdate Summary ''executing'' 1 0]"
  "monitors ticking = [update (Metrics 8) ''executing'' 1 0]"
  "mtotals ticking = update (Metrics 8) ''executing'' 1 0"
  by (simp_all add: ticking_def running_eval handle_frame_def both_update_def report_update_def)

theorem tick_commits_lanes_then_summary_witness:
  "measured 0 (last_time ticking) = 1 / 1000
   \<and> map duration (monitors (tick 8 0 ticking)) = [1 / 1000]
   \<and> duration (mtotals (tick 8 0 ticking)) = 1 / 1000
   \<and> dom (delta (trim (commit (monitors ticking ! 0) (1 / 1000)) 8) (changes (monitors ticking ! 0)))
       = {''executing''}
   \<and> delta (trim (commit (monitors ticking ! 0) (1 / 1000)) 8) (changes (monitors ticking ! 0))
        ''executing'' = Some 1
   \<and> length (trace (tick 8 0 ticking)) = length (trace ticking) + 9"
  using tick_commits_lanes_then_summary
    [of 0 ticking 8 "1 / 1000" "monitors ticking" 0 "monitors ticking ! 0" "''executing''"]
  by (simp add: ticking_facts lane_tick_events_def)
     (auto simp add: trim_def commit_def update_def Metrics_def Let_def get0_def)

subsection \<open>Whole runs\<close>

lemmas dispatch_eval =
  dispatch_def initial_state_def iteration_def events_and_tick_def admit_one_def launch_def
  emit_def cleanup_def kill_one_def Let_def clear_def Metrics_def cleared_def

text \<open>
  The run of one work item ends normally after three passes. Its calls, the notifications
  of the control layer left out: the admission, the two frames with one invocation of the
  end-of-transaction trap, the tick, the end of the process with the end-of-process trap
  and the report to the queue, the second tick, and the release of the multiplexer.
\<close>

lemma complete_run:
  "map_option (\<lambda>(s, x). (x, filter not_update (trace s), statusd s, available s))
     (dispatch job_env [Metrics 8] (Metrics 8) 0 [(3, 4)] job_script)
   = Some (None,
       [Title Summary Star, MClear Summary, Enter, Take 1,
        MClear (Lane 0), Pipe 3 4, Spawn (Spawns 100) 4, Close 4,
        Title (Lane 0) (Process ''build'' []), Connect 0 3, Install (Lane 0), Flush,
        MUpdate (Lane 0) ''executing'' 1 0, MUpdate Summary ''executing'' 1 0,
        MUpdate (Lane 0) ''executing'' (- 1) 0, MUpdate Summary ''executing'' (- 1) 0,
        Eox 0 stopped_frame started_frame [] (Some ''xq''),
        MCommit (Lane 0) (1 / 100), MTrim (Lane 0) 8, MCommit Summary (1 / 100), MTrim Summary 8,
        Title Summary QueueStatus, Frame Summary, Flush,
        Reap 100, Eop 0 (Some ''xq'') 100 0, MClear (Lane 0), Finish ''job'',
        Title Summary QueueStatus, Install Summary,
        MCommit (Lane 0) (1 / 100), MTrim (Lane 0) 8, MCommit Summary (1 / 100), MTrim Summary 8,
        Title Summary QueueStatus, Frame Summary, Flush,
        Take 1, Flush, Exit],
       [], [0])"
  by (simp add: dispatch_eval job_env_def job_script_def one_process_plan_def upt_rec
      poll_one_def handle_frame_def closed_def report_update_def both_update_def tick_eq
      started_frame_def stopped_frame_def lane_tick_events_def dict_del_def not_update_def
      measured_def)

text \<open>
  The admission of a work item with an empty plan, from any state with a free lane: the
  item is reported finished at once, the lane goes back to the end of \<open>available\<close> and
  nothing is spawned or connected; the status dictionary made for the admission is still
  the lane's entry of \<open>statusd\<close>.
\<close>

lemma map_of_dict_set: "map_of (dict_set k v d) k' = (if k' = k then Some v else map_of d k')"
  by (induction k v d rule: dict_set.induct) auto

lemma admit_one_empty_plan:
  assumes "available s = l # av" and "l < length (monitors s)" and "plan ident = []"
  shows "snd (admit_one plan ident s) = None
    \<and> trace (fst (admit_one plan ident s)) = trace s @ [MClear (Lane l), Finish ident, Erase (Lane l)]
    \<and> available (fst (admit_one plan ident s)) = av @ [l]
    \<and> map_of (statusd (fst (admit_one plan ident s))) l = Some (nref s)
    \<and> st_source (heap (fst (admit_one plan ident s)) (nref s)) = Some ident
    \<and> st_pid (heap (fst (admit_one plan ident s)) (nref s)) = None"
  using assms
  by (simp add: admit_one_def launch_def emit_def Let_def map_of_dict_set)

lemma idle_iteration:
  assumes "stuck s"
  shows "\<exists>s'. iteration empty_env idle_pass s = (s', None) \<and> stuck s'"
proof -
  from assms obtain r it where s: "processing s" "available s = [0]" "statusd s = [(0, r)]"
    "r < nref s" "st_process_queue (heap s r) = Some it" "iters s it = []"
    by (auto simp: stuck_def)
  let ?s2 = "emit [Flush] (emit [Take (length (available s))] s)"
  let ?s3 = "?s2\<lparr>heap := (heap ?s2)(nref ?s2 := heap ?s2 r), nref := Suc (nref ?s2),
                status := Some (nref ?s2)\<rparr>"
  from s have l: "launch (nref ?s2) ?s3 = (?s3, Inr None)"
    by (simp add: launch_def emit_def)
  from s l have b: "backfill_lane 0 ?s2 = (?s3, Inr True)"
    by (subst backfill_lane.simps) (simp add: emit_def)
  from s b have i: "iteration empty_env idle_pass s = (tick 8 5 ?s3, None)"
    by (simp add: iteration_def idle_pass_def empty_env_def events_and_tick_def emit_def)
  from s have "stuck (tick 8 5 ?s3)"
    by (simp add: stuck_def tick_eq emit_def)
  with i show ?thesis by blast
qed

lemma stuck_loop: "stuck s \<Longrightarrow> loop empty_env (replicate n idle_pass) s = None"
proof (induction n arbitrary: s)
  case 0
  then show ?case by (simp add: stuck_def)
next
  case (Suc n)
  from idle_iteration [OF Suc.prems] obtain s' where
    "iteration empty_env idle_pass s = (s', None)" and "stuck s'"
    by blast
  with Suc.IH [of s'] Suc.prems show ?case
    by (simp add: stuck_def)
qed

lemma only_pass_stuck:
  "\<exists>s'. iteration empty_env only_pass (emit [Enter] (initial_state [Metrics 8] (Metrics 8) 0 []))
          = (s', None) \<and> stuck s'"
  by (simp add: iteration_def only_pass_def empty_env_def events_and_tick_def admit_one_def
      launch_def emit_def initial_state_def Let_def backfill_lane.simps tick_eq stuck_def upt_rec)

text \<open>
  C7. Admitting a work item whose plan is empty reports it finished, erases the monitor
  and puts the lane back into \<open>available\<close>, and no pipe, spawn or connect is made; but
  the status dictionary created for the admission stays in \<open>statusd\<close> under the lane, with
  its source and without a process. With one lane and a queue that hands out this item
  and is then terminal, \<open>statusd\<close> never becomes empty: \<open>dispatch\<close> has not returned
  after any number of further passes.
\<close>

theorem empty_plan_keeps_session:
  "(case admit_one (\<lambda>i. []) ''a'' (emit [Enter] (initial_state [Metrics 8] (Metrics 8) 0 [])) of
      (s, x) \<Rightarrow> (x, statusd s, st_source (heap s 0), st_pid (heap s 0), available s, trace s))
     = (None, [(0, 0)], Some ''a'', None, [0],
        [Title Summary Star, MClear Summary, Enter, MClear (Lane 0), Finish ''a'', Erase (Lane 0)])
   \<and> (\<forall>n. dispatch empty_env [Metrics 8] (Metrics 8) 0 [] (only_pass # replicate n idle_pass) = None)"
proof -
  from only_pass_stuck obtain s' where
    i: "iteration empty_env only_pass (emit [Enter] (initial_state [Metrics 8] (Metrics 8) 0 []))
          = (s', None)" and "stuck s'"
    by blast
  then have "loop empty_env (replicate n idle_pass) s' = None" for n
    by (simp add: stuck_loop)
  with i have "dispatch empty_env [Metrics 8] (Metrics 8) 0 [] (only_pass # replicate n idle_pass) = None" for n
    by (simp add: dispatch_def initial_state_def emit_def)
  then show ?thesis
    by (simp add: admit_one_def launch_def emit_def initial_state_def Let_def)
qed

text \<open>
  The \<^verbatim>\<open>finally\<close> clause only adds calls, the release of the multiplexer first: whenever
  \<open>dispatch\<close> returns, normally or with an exception, the release has been made.
\<close>

lemma kill_one_frame:
  "\<exists>es. fst (kill_one killpg l s) = emit es s"
  by (auto simp add: kill_one_def emit_def split: option.splits intro: exI [of _ "[]"])

lemma emit_emit: "emit es' (emit es s) = emit (es @ es') s"
  by (simp add: emit_def)

lemma kill_all_frame: "\<exists>es. fst (kill_all killpg ls s) = emit es s"
proof (induction ls arbitrary: s)
  case Nil
  show ?case by (auto simp add: emit_def intro: exI [of _ "[]"])
next
  case (Cons l ls)
  obtain es where e: "fst (kill_one killpg l s) = emit es s"
    using kill_one_frame by blast
  show ?case
  proof (cases "snd (kill_one killpg l s)")
    case None
    with e have "kill_all killpg (l # ls) s = kill_all killpg ls (emit es s)"
      by (cases "kill_one killpg l s") simp
    with Cons.IH [of "emit es s"] show ?thesis
      by (auto simp add: emit_emit)
  next
    case (Some x)
    with e have "fst (kill_all killpg (l # ls) s) = emit es s"
      by (cases "kill_one killpg l s") simp
    then show ?thesis by blast
  qed
qed

lemma dispatch_releases_multiplexer:
  assumes "dispatch e ms summary t0 ps inps = Some (s, x)"
  shows "Exit \<in> set (trace s)"
proof -
  from assms obtain s0 raised where
    c: "cleanup (e_killpg e) raised s0 = (s, x)"
    by (auto simp add: dispatch_def split: option.splits)
  obtain es where
    "fst (kill_all (e_killpg e) (map fst (statusd s0)) (emit [Exit] s0)) = emit es (emit [Exit] s0)"
    using kill_all_frame by blast
  with c have "s = emit es (emit [Exit] s0)"
    by (auto simp add: cleanup_def split: prod.splits option.splits)
  then show ?thesis
    by (simp add: emit_def)
qed

text \<open>
  When the variable \<^verbatim>\<open>status\<close> names a dictionary that holds a process and
  \<^verbatim>\<open>os.killpg\<close> raises nothing but the two exceptions the clause catches, the loop over
  \<open>statusd\<close> raises nothing and signals every lane that holds a process.
\<close>

lemma kill_one_sane:
  assumes "status s = Some r'" and "st_pid (heap s r') = Some p'"
    and "\<forall>p x. killpg p = Some x \<longrightarrow> x = KeyError \<or> x = ProcessLookupError"
  shows "\<exists>es. kill_one killpg l s = (emit es s, None)
          \<and> (\<forall>r p. map_of (statusd s) l = Some r \<and> st_pid (heap s r) = Some p \<longrightarrow> Killpg p \<in> set es)"
proof (cases "map_of (statusd s) l")
  case None
  then have "kill_one killpg l s = (emit [] s, None)"
    by (simp add: kill_one_def emit_def)
  with None show ?thesis by auto
next
  case (Some r)
  show ?thesis
  proof (cases "st_pid (heap s r)")
    case None
    with Some have "kill_one killpg l s = (emit [] s, None)"
      by (simp add: kill_one_def emit_def)
    with Some None show ?thesis by auto
  next
    case p: (Some p)
    show ?thesis
    proof (cases "killpg p")
      case None
      with Some p assms(1,2) have "kill_one killpg l s = (emit [Killpg p, Reap p'] s, None)"
        by (simp add: kill_one_def)
      with Some p show ?thesis by auto
    next
      case x: (Some x)
      with assms(3) have "x = KeyError \<or> x = ProcessLookupError" by blast
      with Some p x have "kill_one killpg l s = (emit [Killpg p] s, None)"
        by (auto simp add: kill_one_def)
      with Some p show ?thesis by auto
    qed
  qed
qed

lemma kill_all_sane:
  assumes "status s = Some r'" and "st_pid (heap s r') = Some p'"
    and "\<forall>p x. killpg p = Some x \<longrightarrow> x = KeyError \<or> x = ProcessLookupError"
  shows "\<exists>es. kill_all killpg ls s = (emit es s, None)
          \<and> (\<forall>l r p. l \<in> set ls \<and> map_of (statusd s) l = Some r \<and> st_pid (heap s r) = Some p
                \<longrightarrow> Killpg p \<in> set es)"
  using assms(1,2)
proof (induction ls arbitrary: s)
  case Nil
  have "kill_all killpg [] s = (emit [] s, None)" by (simp add: emit_def)
  then show ?case by auto
next
  case (Cons l ls)
  from kill_one_sane [OF Cons.prems assms(3), where l = l] obtain es where
    one: "kill_one killpg l s = (emit es s, None)"
    and k: "\<forall>r p. map_of (statusd s) l = Some r \<and> st_pid (heap s r) = Some p \<longrightarrow> Killpg p \<in> set es"
    by blast
  have f: "status (emit es s) = Some r'" "st_pid (heap (emit es s) r') = Some p'"
    "statusd (emit es s) = statusd s" "heap (emit es s) = heap s"
    using Cons.prems by (simp_all add: emit_def)
  from Cons.IH [OF f(1,2)] obtain es' where
    rest: "kill_all killpg ls (emit es s) = (emit es' (emit es s), None)"
    and k': "\<forall>l r p. l \<in> set ls \<and> map_of (statusd s) l = Some r \<and> st_pid (heap s r) = Some p
                \<longrightarrow> Killpg p \<in> set es'"
    by (auto simp add: f(3,4))
  from one rest have "kill_all killpg (l # ls) s = (emit (es @ es') s, None)"
    by (simp add: emit_def)
  moreover from k k' have "\<forall>l' r p. l' \<in> set (l # ls) \<and> map_of (statusd s) l' = Some r
      \<and> st_pid (heap s r) = Some p \<longrightarrow> Killpg p \<in> set (es @ es')"
    by auto
  ultimately show ?case by blast
qed

text \<open>
  C8. Three lanes admit three work items; the processes of lanes 0 and 1 are spawned
  (100 and 101) and the spawn for lane 2 raises, which ends the loop. The \<^verbatim>\<open>finally\<close>
  clause releases the multiplexer and kills the process group of lane 0; it then reads
  \<^verbatim>\<open>status['pid']\<close> from the dictionary of lane 2, which has no process: the KeyError
  leaves \<open>dispatch\<close> in place of the spawn error, and the process group of lane 1, still
  in \<open>statusd\<close> with its process, is never signalled.
\<close>

theorem cleanup_keyerror_escapes:
  "map_option (\<lambda>(s, x). (x, trace s, map fst (statusd s), status s,
        map (\<lambda>(l, r). st_pid (heap s r)) (statusd s)))
     (dispatch failing_env [Metrics 8, Metrics 8, Metrics 8] (Metrics 8) 0
        [(3, 4), (5, 6), (7, 8)] [first_pass])
   = Some (Some KeyError,
       [Title Summary Star, MClear Summary, Enter, Take 3,
        MClear (Lane 0), Pipe 3 4, Spawn (Spawns 100) 4, Close 4,
        Title (Lane 0) (Process ''build'' []), Connect 0 3, Install (Lane 0),
        MClear (Lane 1), Pipe 5 6, Spawn (Spawns 101) 6, Close 6,
        Title (Lane 1) (Process ''build'' []), Connect 1 5, Install (Lane 1),
        MClear (Lane 2), Pipe 7 8, Spawn (Fails (OSError ''spawn'')) 8, Close 7, Close 8,
        Exit, Killpg 100],
       [0, 1, 2], Some 2, [Some 100, Some 101, None])"
  by (simp add: dispatch_eval failing_env_def failing_plan_def first_pass_def upt_rec)


end
